theory Spec2Isabelle
  imports Main "HOL-Library.Word"
begin

unbundle bit_operations_syntax

section \<open>The wiki server of \<^verbatim>\<open>wiki.go\<close>\<close>

text \<open>
  The program is one Go file: a page store (\<^verbatim>\<open>save\<close>, \<^verbatim>\<open>loadPage\<close>), three request
  handlers and the wrapper \<^verbatim>\<open>makeHandler\<close> that cuts the title out of the request path and
  checks it against a regular expression. The functions of the file are translated one by
  one. What they call in Go's standard library (the regular expression matcher, the two
  file operations of \<^verbatim>\<open>io/ioutil\<close>, the replies of \<^verbatim>\<open>net/http\<close>) is modelled next to
  them, from the library's documentation, as far as the program depends on it.
\<close>

subsection \<open>Pages\<close>

text \<open>
  A Go \<^verbatim>\<open>string\<close> is a sequence of bytes, and so is a HOL \<^typ>\<open>string\<close>; a \<^verbatim>\<open>[]byte\<close> is a
  list of 8-bit words. The conversion \<^verbatim>\<open>[]byte(s)\<close> copies the bytes of the string.
\<close>

type_synonym byte = "8 word"

definition bytes :: "string \<Rightarrow> byte list" where
  "bytes s = map of_char s"

record Page =
  Title :: string
  Body :: "byte list"

subsection \<open>Regular expressions\<close>

text \<open>
  The operators of \<^verbatim>\<open>regexp/syntax\<close> that the pattern of the program uses. A character
  class is a list of inclusive ranges. \<^verbatim>\<open>BeginText\<close> is \<^verbatim>\<open>^\<close> and \<^verbatim>\<open>EndText\<close> is \<^verbatim>\<open>$\<close>;
  without the flag \<^verbatim>\<open>m\<close>, which the pattern does not set, they hold at the two ends of the
  text only (in particular \<^verbatim>\<open>$\<close> does not hold before a final newline).
\<close>

datatype regexp =
  BeginText
| EndText
| CharClass "(char \<times> char) list"
| Plus regexp
| Concat regexp regexp

fun in_class :: "(char \<times> char) list \<Rightarrow> char \<Rightarrow> bool" where
  "in_class [] c = False"
| "in_class ((lo, hi) # rs) c =
     (((of_char lo :: nat) \<le> of_char c \<and> (of_char c :: nat) \<le> of_char hi) \<or> in_class rs c)"

text \<open>
  \<open>ends r s i\<close> lists the positions where a match of \<open>r\<close> that starts at position \<open>i\<close> of
  \<open>s\<close> can end. \<open>repeat f n i\<close> follows one or more rounds of \<open>f\<close> from position \<open>i\<close>, at
  most \<open>n\<close> of them; a further round is taken only from a position further right, so
  \<open>Suc (length s)\<close> rounds reach every position that any number of rounds reaches.

  The matcher of Go decodes the text as UTF-8 and compares code points. The ranges of the
  program's pattern are ASCII, a byte below 128 is its own code point, and the bytes of a
  longer encoding are all above 127, so comparing bytes accepts the same texts.
\<close>

fun repeat :: "(nat \<Rightarrow> nat list) \<Rightarrow> nat \<Rightarrow> nat \<Rightarrow> nat list" where
  "repeat f 0 i = []"
| "repeat f (Suc n) i =
     (let js = f i in js @ concat (map (repeat f n) (filter (\<lambda>j. i < j) js)))"

primrec ends :: "regexp \<Rightarrow> string \<Rightarrow> nat \<Rightarrow> nat list" where
  "ends BeginText s i = (if i = 0 then [i] else [])"
| "ends EndText s i = (if i = length s then [i] else [])"
| "ends (CharClass rs) s i = (if i < length s \<and> in_class rs (s ! i) then [Suc i] else [])"
| "ends (Plus r) s i = repeat (ends r s) (Suc (length s)) i"
| "ends (Concat r1 r2) s i = concat (map (ends r2 s) (ends r1 s i))"

text \<open>\<^verbatim>\<open>MatchString\<close> reports whether the text contains a match, starting anywhere.\<close>

definition MatchString :: "regexp \<Rightarrow> string \<Rightarrow> bool" where
  "MatchString re s = list_ex (\<lambda>i. ends re s i \<noteq> []) [0..<Suc (length s)]"

text \<open>\<^verbatim>\<open>titleValidator = regexp.MustCompile("^[a-zA-Z0-9]+$")\<close>\<close>

definition titleValidator :: regexp where
  "titleValidator =
     Concat BeginText
       (Concat (Plus (CharClass [(CHR ''a'', CHR ''z''), (CHR ''A'', CHR ''Z''),
                                 (CHR ''0'', CHR ''9'')]))
               EndText)"

subsection \<open>The file system\<close>

text \<open>
  The server's working directory: a directory without subdirectories. Each file has its
  bytes and its permission bits (\<^verbatim>\<open>os.FileMode\<close>, a \<^verbatim>\<open>uint32\<close>). The server runs as the
  owner of the files and without the rights of the superuser, so the owner's bits \<^verbatim>\<open>0400\<close>
  and \<^verbatim>\<open>0200\<close> decide whether it may read or write a file, and \<open>dir_writable\<close> whether it
  may add one to the directory. The process's umask is taken to leave the owner's bits
  alone. \<open>free_bytes\<close> is the space left on the device, counted in bytes of file contents.
  Names are compared byte for byte, as a file system that tells upper case from lower
  case does.
\<close>

type_synonym FileMode = "32 word"

record File =
  contents :: "byte list"
  perm :: FileMode

record filesys =
  files :: "string \<rightharpoonup> File"
  dir_writable :: bool
  free_bytes :: nat

definition owner_read :: "FileMode \<Rightarrow> bool" where
  "owner_read m = (m AND 0x100 \<noteq> 0)"

definition owner_write :: "FileMode \<Rightarrow> bool" where
  "owner_write m = (m AND 0x80 \<noteq> 0)"

text \<open>
  Errors are values of \<^verbatim>\<open>*os.PathError\<close> (operation, path, cause) for the file
  operations, and whatever the template engine reports; \<^verbatim>\<open>Error()\<close> is the description.
\<close>

datatype errno = ENOENT | EACCES | ENAMETOOLONG | EINVAL | EISDIR | ENOSPC

datatype error = PathError string string errno | ExecError string

fun errno_text :: "errno \<Rightarrow> string" where
  "errno_text ENOENT = ''no such file or directory''"
| "errno_text EACCES = ''permission denied''"
| "errno_text ENAMETOOLONG = ''file name too long''"
| "errno_text EINVAL = ''invalid argument''"
| "errno_text EISDIR = ''is a directory''"
| "errno_text ENOSPC = ''no space left on device''"

fun Error :: "error \<Rightarrow> string" where
  "Error (PathError op path e) = op @ '' '' @ path @ '': '' @ errno_text e"
| "Error (ExecError msg) = msg"

text \<open>
  What the system answers to a name before it looks at any file. A name with a zero byte
  is no argument for the system call; the empty name names nothing; \<^verbatim>\<open>.\<close> and \<^verbatim>\<open>..\<close> name
  directories; a name longer than \<^verbatim>\<open>NAME_MAX\<close> (255 bytes on Linux) is too long. A name
  with a slash is a path through another directory: the model has no subdirectory and
  nothing outside the working directory, so it answers every such path as not found.
  That is what happens to a path through a subdirectory that is missing, like \<^verbatim>\<open>a/b.txt\<close>;
  paths that lead back into the working directory (\<^verbatim>\<open>./Foo.txt\<close>) or out of it are beyond
  the model. The names the server itself makes, an accepted title followed by \<^verbatim>\<open>.txt\<close>,
  hold no slash.
\<close>

definition NAME_MAX :: nat where
  "NAME_MAX = 255"

definition name_error :: "string \<Rightarrow> errno option" where
  "name_error filename =
     (if CHR 0x00 \<in> set filename then Some EINVAL
      else if filename = [] \<or> CHR ''/'' \<in> set filename then Some ENOENT
      else if filename = ''.'' \<or> filename = ''..'' then Some EISDIR
      else if NAME_MAX < length filename then Some ENAMETOOLONG
      else None)"

text \<open>
  \<^verbatim>\<open>ioutil.WriteFile(filename, data, perm)\<close>: ``If the file does not exist, WriteFile
  creates it with permissions perm; otherwise WriteFile truncates it before writing.''
  Truncating keeps the permissions the file has and gives the space of the old contents
  back. The library function opens the file (\<^verbatim>\<open>O_WRONLY|O_CREATE|O_TRUNC\<close>), writes the
  data and closes the file; \<open>write_data\<close> is the second step, on the file as opening has
  left it, with \<open>avail\<close> bytes to have. When the data do not fit, the part that does is
  written and the error is returned.
\<close>

definition write_data :: "string \<Rightarrow> byte list \<Rightarrow> File \<Rightarrow> nat \<Rightarrow> filesys \<Rightarrow> error option \<times> filesys" where
  "write_data filename data f avail fs =
     (if length data \<le> avail
      then (None,
            fs\<lparr>files := (files fs)(filename \<mapsto> f\<lparr>contents := data\<rparr>),
               free_bytes := avail - length data\<rparr>)
      else (Some (PathError ''write'' filename ENOSPC),
            fs\<lparr>files := (files fs)(filename \<mapsto> f\<lparr>contents := take avail data\<rparr>),
               free_bytes := 0\<rparr>))"

definition WriteFile :: "string \<Rightarrow> byte list \<Rightarrow> FileMode \<Rightarrow> filesys \<Rightarrow> error option \<times> filesys" where
  "WriteFile filename data prm fs =
     (case name_error filename of
        Some e \<Rightarrow> (Some (PathError ''open'' filename e), fs)
      | None \<Rightarrow>
          (case files fs filename of
             None \<Rightarrow>
               if dir_writable fs
               then write_data filename data \<lparr>contents = [], perm = prm\<rparr> (free_bytes fs) fs
               else (Some (PathError ''open'' filename EACCES), fs)
           | Some f \<Rightarrow>
               if owner_write (perm f)
               then write_data filename data (f\<lparr>contents := []\<rparr>)
                      (free_bytes fs + length (contents f)) fs
               else (Some (PathError ''open'' filename EACCES), fs)))"

text \<open>
  \<^verbatim>\<open>ioutil.ReadFile(filename)\<close> returns the bytes of the file, or an error. A directory can
  be opened for reading; it is the read that fails.
\<close>

definition ReadFile :: "string \<Rightarrow> filesys \<Rightarrow> error + byte list" where
  "ReadFile filename fs =
     (case name_error filename of
        Some e \<Rightarrow> Inl (PathError (if e = EISDIR then ''read'' else ''open'') filename e)
      | None \<Rightarrow>
          (case files fs filename of
             None \<Rightarrow> Inl (PathError ''open'' filename ENOENT)
           | Some f \<Rightarrow>
               if owner_read (perm f) then Inr (contents f)
               else Inl (PathError ''open'' filename EACCES)))"

subsection \<open>The page store\<close>

text \<open>
  \<^verbatim>\<open>func (p *Page) save() error\<close>; the mode is the octal literal \<^verbatim>\<open>0600\<close>.
\<close>

definition save :: "Page \<Rightarrow> filesys \<Rightarrow> error option \<times> filesys" where
  "save p fs = (let filename = Title p @ ''.txt'' in WriteFile filename (Body p) 0x180 fs)"

text \<open>\<^verbatim>\<open>func loadPage(title string) (*Page, error)\<close>\<close>

definition loadPage :: "string \<Rightarrow> filesys \<Rightarrow> error + Page" where
  "loadPage title fs =
     (let filename = title @ ''.txt'' in
      case ReadFile filename fs of
        Inl err \<Rightarrow> Inl err
      | Inr body \<Rightarrow> Inr \<lparr>Title = title, Body = body\<rparr>)"

subsection \<open>Requests and replies\<close>

text \<open>
  Of a request the program reads the path of its URL and one form value.
  \<^verbatim>\<open>FormValue(key)\<close> is the first value of the key in the parsed form, and the empty
  string when the form has none.
\<close>

record Request =
  Method :: string
  Path :: string
  Form :: "string \<rightharpoonup> string list"

definition FormValue :: "Request \<Rightarrow> string \<Rightarrow> string" where
  "FormValue r key = (case Form r key of Some (v # vs) \<Rightarrow> v | _ \<Rightarrow> [])"

text \<open>
  What a handler does to its \<^verbatim>\<open>http.ResponseWriter\<close> is the list of the calls it makes
  on it, in order: \<^verbatim>\<open>http.Redirect(w, r, url, code)\<close>, \<^verbatim>\<open>http.Error(w, text, code)\<close> and
  \<^verbatim>\<open>templates.ExecuteTemplate(w, name, p)\<close>. \<^verbatim>\<open>http.NotFound(w, r)\<close> is, in the library,
  \<^verbatim>\<open>Error(w, "404 page not found", StatusNotFound)\<close>.
\<close>

datatype reply =
  Redirect string nat
| HttpError string nat
| ExecuteTemplate string Page

definition StatusFound :: nat where "StatusFound = 302"
definition StatusNotFound :: nat where "StatusNotFound = 404"
definition StatusInternalServerError :: nat where "StatusInternalServerError = 500"

definition NotFound :: reply where
  "NotFound = HttpError ''404 page not found'' StatusNotFound"

text \<open>
  The template set is parsed from the files \<^verbatim>\<open>edit.html\<close> and \<^verbatim>\<open>view.html\<close> when the
  program starts. The files are not part of the program, so the set is a parameter: the
  error, if any, that executing the named template on a page ends with.
\<close>

type_synonym templates = "string \<Rightarrow> Page \<Rightarrow> error option"

type_synonym handler = "Request \<Rightarrow> string \<Rightarrow> filesys \<Rightarrow> reply list \<times> filesys"

subsection \<open>The handlers\<close>

definition renderTemplate :: "templates \<Rightarrow> string \<Rightarrow> Page \<Rightarrow> reply list" where
  "renderTemplate tpls tmpl p =
     ExecuteTemplate (tmpl @ ''.html'') p #
     (case tpls (tmpl @ ''.html'') p of
        Some err \<Rightarrow> [HttpError (Error err) StatusInternalServerError]
      | None \<Rightarrow> [])"

definition viewHandler :: "templates \<Rightarrow> handler" where
  "viewHandler tpls r title fs =
     (case loadPage title fs of
        Inl err \<Rightarrow> ([Redirect (''/edit/'' @ title) StatusFound], fs)
      | Inr p \<Rightarrow> (renderTemplate tpls ''view'' p, fs))"

text \<open>\<^verbatim>\<open>&Page{Title: title}\<close> leaves the body \<^verbatim>\<open>nil\<close>, the empty slice.\<close>

definition editHandler :: "templates \<Rightarrow> handler" where
  "editHandler tpls r title fs =
     (let p = (case loadPage title fs of
                 Inl err \<Rightarrow> \<lparr>Title = title, Body = []\<rparr>
               | Inr p \<Rightarrow> p)
      in (renderTemplate tpls ''edit'' p, fs))"

definition saveHandler :: handler where
  "saveHandler r title fs =
     (let body = FormValue r ''body'';
          p = \<lparr>Title = title, Body = bytes body\<rparr>
      in case save p fs of
           (Some err, fs') \<Rightarrow> ([HttpError (Error err) StatusInternalServerError], fs')
         | (None, fs') \<Rightarrow> ([Redirect (''/view/'' @ title) StatusFound], fs'))"

subsection \<open>The router\<close>

text \<open>
  \<^verbatim>\<open>const lenPath = len("/view/")\<close>. The slice \<^verbatim>\<open>r.URL.Path[lenPath:]\<close> panics when the
  path is shorter than \<^verbatim>\<open>lenPath\<close>; the result \<open>None\<close> is that panic.
\<close>

definition lenPath :: nat where
  "lenPath = length ''/view/''"

definition makeHandler :: "handler \<Rightarrow> Request \<Rightarrow> filesys \<Rightarrow> (reply list \<times> filesys) option" where
  "makeHandler fn r fs =
     (if length (Path r) < lenPath then None
      else
        let title = drop lenPath (Path r) in
        if \<not> MatchString titleValidator title then Some ([NotFound], fs)
        else Some (fn r title fs))"

text \<open>
  \<^verbatim>\<open>main\<close> registers the three wrapped handlers with the default \<^verbatim>\<open>ServeMux\<close>, each
  under its pattern. A pattern that ends in a slash stands for the paths that start with
  it, so the path of a request that reaches a handler starts with the handler's pattern.
\<close>

definition routes :: "templates \<Rightarrow> (string \<times> (Request \<Rightarrow> filesys \<Rightarrow> (reply list \<times> filesys) option)) list" where
  "routes tpls =
     [(''/view/'', makeHandler (viewHandler tpls)),
      (''/edit/'', makeHandler (editHandler tpls)),
      (''/save/'', makeHandler saveHandler)]"

subsection \<open>Directories, templates and requests to run the program on\<close>

text \<open>
  An empty directory that the server may write to, an empty one that it may not, a
  writable one where \<^verbatim>\<open>Foo.txt\<close> exists with mode \<^verbatim>\<open>0200\<close> (the owner may write the file
  but not read it), and a writable one where \<^verbatim>\<open>Foo.txt\<close> exists with mode \<^verbatim>\<open>0644\<close> (the
  group and the others may read it). Each has a mebibyte of space left.
\<close>

definition empty_dir :: filesys where
  "empty_dir = \<lparr>files = Map.empty, dir_writable = True, free_bytes = 1048576\<rparr>"

definition readonly_dir :: filesys where
  "readonly_dir = \<lparr>files = Map.empty, dir_writable = False, free_bytes = 1048576\<rparr>"

definition writeonly_Foo :: filesys where
  "writeonly_Foo =
     \<lparr>files = [''Foo.txt'' \<mapsto> \<lparr>contents = bytes ''old'', perm = 0x80\<rparr>],
      dir_writable = True, free_bytes = 1048576\<rparr>"

definition shared_Foo :: filesys where
  "shared_Foo =
     \<lparr>files = [''Foo.txt'' \<mapsto> \<lparr>contents = bytes ''old'', perm = 0x1A4\<rparr>],
      dir_writable = True, free_bytes = 1048576\<rparr>"

text \<open>
  A template set whose templates execute without error, and the two kinds of request the
  server is sent: a \<^verbatim>\<open>GET\<close> without form values and a \<^verbatim>\<open>POST\<close> with a form.
\<close>

definition ok_templates :: templates where
  "ok_templates name p = None"

definition GET :: "string \<Rightarrow> Request" where
  "GET path = \<lparr>Method = ''GET'', Path = path, Form = Map.empty\<rparr>"

definition POST :: "string \<Rightarrow> (string \<times> string list) list \<Rightarrow> Request" where
  "POST path form = \<lparr>Method = ''POST'', Path = path, Form = map_of form\<rparr>"

section \<open>The title validator\<close>

text \<open>
  The three ranges of the pattern's class hold the 62 letters and digits of ASCII and
  nothing else; all 256 characters are checked.
\<close>

lemma in_title_class_all:
  "\<forall>c. in_class [(CHR ''a'', CHR ''z''), (CHR ''A'', CHR ''Z''), (CHR ''0'', CHR ''9'')] c
     = (c \<in> set ''abcdefghijklmnopqrstuvwxyzABCDEFGHIJKLMNOPQRSTUVWXYZ0123456789'')"
  by code_simp

text \<open>
  Repeating a character class from position \<open>i\<close> ends at the positions \<open>j\<close> right of
  \<open>i\<close> for which every character from \<open>i\<close> up to \<open>j\<close> is in the class.
\<close>

lemma set_repeat_class:
  "set (repeat (ends (CharClass rs) s) n i) =
     {j. i < j \<and> j \<le> length s \<and> j \<le> i + n \<and> (\<forall>k. i \<le> k \<and> k < j \<longrightarrow> in_class rs (s ! k))}"
proof (induction n arbitrary: i)
  case 0
  show ?case by auto
next
  case (Suc n)
  show ?case
  proof (cases "i < length s \<and> in_class rs (s ! i)")
    case True
    have "\<And>j. (i < j \<and> (\<forall>k. i \<le> k \<and> k < j \<longrightarrow> in_class rs (s ! k))) =
         (j = Suc i \<or> (Suc i < j \<and> (\<forall>k. Suc i \<le> k \<and> k < j \<longrightarrow> in_class rs (s ! k))))"
      using True
      by (metis Suc_leI Suc_le_eq le_antisym less_Suc_eq_le not_less_eq_eq order.order_iff_strict)
    then show ?thesis
      using True Suc.IH [of "Suc i"] by (auto simp: Let_def)
  next
    case False
    then show ?thesis by (auto simp: Let_def)
  qed
qed

lemma ends_Plus_class_end:
  "length s \<in> set (ends (Plus (CharClass rs)) s 0) \<longleftrightarrow>
     s \<noteq> [] \<and> (\<forall>k<length s. in_class rs (s ! k))"
proof -
  have "set (ends (Plus (CharClass rs)) s 0) =
        {j. 0 < j \<and> j \<le> length s \<and> (\<forall>k. k < j \<longrightarrow> in_class rs (s ! k))}"
    by (simp only: ends.simps set_repeat_class) auto
  then show ?thesis by auto
qed

text \<open>
  Between the two anchors the only start of a match is position 0 and the only end is the
  length of the text.
\<close>

lemma MatchString_anchored_class:
  "MatchString (Concat BeginText (Concat (Plus (CharClass rs)) EndText)) s \<longleftrightarrow>
     s \<noteq> [] \<and> (\<forall>c\<in>set s. in_class rs c)"
proof -
  have "MatchString (Concat BeginText (Concat (Plus (CharClass rs)) EndText)) s \<longleftrightarrow>
        length s \<in> set (ends (Plus (CharClass rs)) s 0)"
    unfolding MatchString_def list_ex_iff by (auto split: if_splits)
  then show ?thesis
    unfolding ends_Plus_class_end by (simp add: all_set_conv_all_nth)
qed

text \<open>
  C2. The validator accepts a string if and only if the string is not empty and each of its
  characters is one of the letters \<open>a\<close> to \<open>z\<close>, \<open>A\<close> to \<open>Z\<close> or the digits \<open>0\<close> to \<open>9\<close>.
  So it accepts every string of one or more such characters, and rejects the empty string
  and every string with a character outside the class.
\<close>

theorem titleValidator_accepts_iff:
  "MatchString titleValidator s \<longleftrightarrow>
     s \<noteq> [] \<and>
     (\<forall>c\<in>set s. c \<in> set ''abcdefghijklmnopqrstuvwxyzABCDEFGHIJKLMNOPQRSTUVWXYZ0123456789'')"
  unfolding titleValidator_def MatchString_anchored_class using in_title_class_all by simp

theorem titleValidator_accepts_iff_witness:
  "MatchString titleValidator ''FrontPage1'' \<and> \<not> MatchString titleValidator ''bad title!''
   \<and> \<not> MatchString titleValidator []"
proof -
  have good: "''FrontPage1'' \<noteq> [] \<and>
     (\<forall>c\<in>set ''FrontPage1''. c \<in> set ''abcdefghijklmnopqrstuvwxyzABCDEFGHIJKLMNOPQRSTUVWXYZ0123456789'')"
    by code_simp
  have bad: "\<not> (''bad title!'' \<noteq> [] \<and>
     (\<forall>c\<in>set ''bad title!''. c \<in> set ''abcdefghijklmnopqrstuvwxyzABCDEFGHIJKLMNOPQRSTUVWXYZ0123456789''))"
    by code_simp
  show ?thesis
    using good bad titleValidator_accepts_iff [of "''FrontPage1''"]
      titleValidator_accepts_iff [of "''bad title!''"] titleValidator_accepts_iff [of "[]"]
    by blast
qed

lemma valid_title_chars:
  assumes "MatchString titleValidator s" and "c \<in> set s"
  shows "c \<in> set ''abcdefghijklmnopqrstuvwxyzABCDEFGHIJKLMNOPQRSTUVWXYZ0123456789''"
proof -
  have "in_class [(CHR ''a'', CHR ''z''), (CHR ''A'', CHR ''Z''), (CHR ''0'', CHR ''9'')] c"
    using assms unfolding titleValidator_def MatchString_anchored_class by blast
  then show ?thesis
    using in_title_class_all by blast
qed

lemma valid_Foo: "MatchString titleValidator ''Foo''"
  by code_simp

lemma valid_Bar: "MatchString titleValidator ''Bar''"
  by code_simp

section \<open>The page store\<close>

text \<open>
  The mode \<^verbatim>\<open>0600\<close> that \<open>save\<close> passes on: read and write for the owner, nothing for the
  group and the others (the low six bits, \<^verbatim>\<open>077\<close>).
\<close>

lemma mode_0600:
  "(0x180 :: FileMode) = 6 * 8 ^ 2" "owner_read 0x180" "owner_write 0x180"
  "(0x180 :: FileMode) AND 0x3F = 0"
  by (simp_all add: owner_read_def owner_write_def)

lemmas store_defs = save_def WriteFile_def write_data_def Let_def

lemma name_Foo: "name_error ''Foo.txt'' = None"
  by (simp add: name_error_def NAME_MAX_def)

lemma save_ok_name:
  assumes "fst (save p fs) = None"
  shows "name_error (Title p @ ''.txt'') = None"
  using assms by (cases "name_error (Title p @ ''.txt'')") (simp_all add: store_defs)

lemma save_ok_written:
  assumes "fst (save p fs) = None"
  shows "files (snd (save p fs)) (Title p @ ''.txt'') =
    Some \<lparr>contents = Body p,
          perm = (case files fs (Title p @ ''.txt'') of None \<Rightarrow> 0x180 | Some g \<Rightarrow> perm g)\<rparr>"
  using assms by (auto simp: store_defs split: option.splits if_splits)

lemma save_ok_file:
  assumes "save p fs = (None, fs')"
  shows "\<exists>f. files fs' (Title p @ ''.txt'') = Some f \<and> contents f = Body p \<and>
           perm f = (case files fs (Title p @ ''.txt'') of None \<Rightarrow> 0x180 | Some g \<Rightarrow> perm g)"
  using save_ok_written [of p fs] assms by simp

lemma save_other_files:
  assumes "name \<noteq> Title p @ ''.txt''"
  shows "files (snd (save p fs)) name = files fs name"
  using assms by (simp add: store_defs split: option.splits)

lemma loadPage_file:
  assumes "files fs (title @ ''.txt'') = Some f" and "owner_read (perm f)"
    and "name_error (title @ ''.txt'') = None"
  shows "loadPage title fs = Inr \<lparr>Title = title, Body = contents f\<rparr>"
  using assms by (simp add: loadPage_def ReadFile_def Let_def)

lemma loadPage_missing:
  assumes "files fs (title @ ''.txt'') = None"
  shows "\<exists>err. loadPage title fs = Inl err"
  using assms by (simp add: loadPage_def ReadFile_def Let_def split: option.splits)

lemma loadPage_same_file:
  assumes "files fs1 (title @ ''.txt'') = files fs2 (title @ ''.txt'')"
  shows "loadPage title fs1 = loadPage title fs2"
  using assms by (cases "name_error (title @ ''.txt'')") (simp_all add: loadPage_def ReadFile_def)

text \<open>
  C1. Saving a page and then loading its title returns the page, when the save reports no
  error and the server may read the file, as it may whenever the save has created the
  file, with mode \<^verbatim>\<open>0600\<close>. For every accepted title \<open>T\<close> and body \<open>B\<close>: if \<open>save\<close> of the page
  \<open>(T, B)\<close> returns no error, and the file of \<open>T\<close>, if there was one before, was readable by
  its owner, then \<open>loadPage T\<close> succeeds and returns the page with title \<open>T\<close> and body \<open>B\<close>.
\<close>

theorem save_then_load:
  assumes "MatchString titleValidator T"
    and "save \<lparr>Title = T, Body = B\<rparr> fs = (None, fs')"
    and "\<And>f. files fs (T @ ''.txt'') = Some f \<Longrightarrow> owner_read (perm f)"
  shows "loadPage T fs' = Inr \<lparr>Title = T, Body = B\<rparr>"
proof -
  obtain f where f: "files fs' (T @ ''.txt'') = Some f" "contents f = B"
    "perm f = (case files fs (T @ ''.txt'') of None \<Rightarrow> 0x180 | Some g \<Rightarrow> perm g)"
    using save_ok_file [OF assms(2)] by auto
  have name: "name_error (T @ ''.txt'') = None"
    using save_ok_name [of "\<lparr>Title = T, Body = B\<rparr>" fs] assms(2) by simp
  have "owner_read (perm f)"
    using f(3) assms(3) mode_0600(2) by (cases "files fs (T @ ''.txt'')") simp_all
  then show ?thesis
    using loadPage_file [OF f(1) _ name] f(2) by simp
qed

theorem save_then_load_witness:
  "MatchString titleValidator ''Foo'' \<and>
   fst (save \<lparr>Title = ''Foo'', Body = bytes ''Hello, world!''\<rparr> empty_dir) = None \<and>
   files empty_dir ''Foo.txt'' = None \<and>
   loadPage ''Foo'' (snd (save \<lparr>Title = ''Foo'', Body = bytes ''Hello, world!''\<rparr> empty_dir))
     = Inr \<lparr>Title = ''Foo'', Body = bytes ''Hello, world!''\<rparr>"
proof -
  have none: "files empty_dir (''Foo'' @ ''.txt'') = None"
    by (simp add: empty_dir_def)
  have ok: "fst (save \<lparr>Title = ''Foo'', Body = bytes ''Hello, world!''\<rparr> empty_dir) = None"
    by (simp add: store_defs name_Foo empty_dir_def bytes_def)
  then have eq: "save \<lparr>Title = ''Foo'', Body = bytes ''Hello, world!''\<rparr> empty_dir =
      (None, snd (save \<lparr>Title = ''Foo'', Body = bytes ''Hello, world!''\<rparr> empty_dir))"
    by (simp add: prod_eq_iff)
  show ?thesis
    using save_then_load [OF valid_Foo eq] none ok valid_Foo by simp
qed

text \<open>
  Without the two conditions the round trip fails. In a directory that the server may not
  write to, \<open>save\<close> returns an error and \<open>loadPage\<close> finds no file. Where \<^verbatim>\<open>Foo.txt\<close> exists
  with mode \<^verbatim>\<open>0200\<close>, \<open>save\<close> succeeds and \<open>loadPage\<close> is refused.
\<close>

theorem save_then_load_counterexample:
  "MatchString titleValidator ''Foo'' \<and>
   save \<lparr>Title = ''Foo'', Body = bytes ''hi''\<rparr> readonly_dir
     = (Some (PathError ''open'' ''Foo.txt'' EACCES), readonly_dir) \<and>
   loadPage ''Foo'' (snd (save \<lparr>Title = ''Foo'', Body = bytes ''hi''\<rparr> readonly_dir))
     = Inl (PathError ''open'' ''Foo.txt'' ENOENT) \<and>
   fst (save \<lparr>Title = ''Foo'', Body = bytes ''hi''\<rparr> writeonly_Foo) = None \<and>
   loadPage ''Foo'' (snd (save \<lparr>Title = ''Foo'', Body = bytes ''hi''\<rparr> writeonly_Foo))
     = Inl (PathError ''open'' ''Foo.txt'' EACCES)"
  using valid_Foo
  by (simp add: store_defs name_Foo loadPage_def ReadFile_def readonly_dir_def
      writeonly_Foo_def owner_read_def owner_write_def bytes_def)

text \<open>
  C7. \<open>save\<close> is one write of the page's body to the file named by the title followed by
  \<^verbatim>\<open>.txt\<close>, with mode \<^verbatim>\<open>0600\<close> (read and write for the owner, nothing for anyone else), and
  it returns what that write returns. If it returns no error, the file holds exactly the
  body of the page; the file has been created with mode \<^verbatim>\<open>0600\<close> if it was absent, and
  its old contents have been replaced if it was present, in which case it keeps the
  permission bits it had, which need not be \<^verbatim>\<open>0600\<close>. So whenever the file does not end
  up with exactly the body, whatever the cause, \<open>save\<close> returns an error.
\<close>

theorem save_writes_body:
  "save p fs = WriteFile (Title p @ ''.txt'') (Body p) (6 * 8 ^ 2) fs \<and>
   owner_read (6 * 8 ^ 2) \<and> owner_write (6 * 8 ^ 2) \<and> (6 * 8 ^ 2 :: FileMode) AND 0x3F = 0 \<and>
   (fst (save p fs) = None \<longrightarrow>
      files (snd (save p fs)) (Title p @ ''.txt'') =
        Some \<lparr>contents = Body p,
              perm = (case files fs (Title p @ ''.txt'') of
                        None \<Rightarrow> 6 * 8 ^ 2 | Some f \<Rightarrow> perm f)\<rparr>) \<and>
   (files (snd (save p fs)) (Title p @ ''.txt'') \<noteq>
        Some \<lparr>contents = Body p,
              perm = (case files fs (Title p @ ''.txt'') of
                        None \<Rightarrow> 6 * 8 ^ 2 | Some f \<Rightarrow> perm f)\<rparr> \<longrightarrow>
      fst (save p fs) \<noteq> None)"
proof -
  have call: "save p fs = WriteFile (Title p @ ''.txt'') (Body p) (6 * 8 ^ 2) fs"
    by (simp add: save_def Let_def)
  have bits: "owner_read (6 * 8 ^ 2) \<and> owner_write (6 * 8 ^ 2) \<and> (6 * 8 ^ 2 :: FileMode) AND 0x3F = 0"
    by (simp add: owner_read_def owner_write_def)
  have written: "files (snd (save p fs)) (Title p @ ''.txt'') =
       Some \<lparr>contents = Body p,
             perm = (case files fs (Title p @ ''.txt'') of None \<Rightarrow> 6 * 8 ^ 2 | Some f \<Rightarrow> perm f)\<rparr>"
    if "fst (save p fs) = None"
    using save_ok_written [OF that] by (simp split: option.splits)
  show ?thesis
    using call bits written by blast
qed

theorem save_writes_body_witness:
  "fst (save \<lparr>Title = ''Foo'', Body = bytes ''hi''\<rparr> empty_dir) = None \<and>
   files (snd (save \<lparr>Title = ''Foo'', Body = bytes ''hi''\<rparr> empty_dir)) ''Foo.txt''
     = Some \<lparr>contents = [104, 105], perm = 384\<rparr> \<and>
   files (snd (save \<lparr>Title = ''Foo'', Body = bytes ''hi''\<rparr> readonly_dir)) ''Foo.txt'' = None \<and>
   fst (save \<lparr>Title = ''Foo'', Body = bytes ''hi''\<rparr> readonly_dir) \<noteq> None"
proof -
  let ?p = "\<lparr>Title = ''Foo'', Body = bytes ''hi''\<rparr>"
  note new = save_writes_body [of ?p empty_dir]
  note ro = save_writes_body [of ?p readonly_dir]
  have ok_new: "fst (save ?p empty_dir) = None"
    by (simp add: store_defs name_Foo empty_dir_def bytes_def)
  with new have "files (snd (save ?p empty_dir)) (Title ?p @ ''.txt'') =
      Some \<lparr>contents = Body ?p,
            perm = (case files empty_dir (Title ?p @ ''.txt'') of
                      None \<Rightarrow> 6 * 8 ^ 2 | Some f \<Rightarrow> perm f)\<rparr>"
    by blast
  then have file_new: "files (snd (save ?p empty_dir)) ''Foo.txt''
      = Some \<lparr>contents = [104, 105], perm = 384\<rparr>"
    by (simp add: empty_dir_def bytes_def)
  have absent: "files (snd (save ?p readonly_dir)) ''Foo.txt'' = None"
    by (simp add: store_defs name_Foo readonly_dir_def)
  then have "files (snd (save ?p readonly_dir)) (Title ?p @ ''.txt'') \<noteq>
      Some \<lparr>contents = Body ?p,
            perm = (case files readonly_dir (Title ?p @ ''.txt'') of
                      None \<Rightarrow> 6 * 8 ^ 2 | Some f \<Rightarrow> perm f)\<rparr>"
    by simp
  with ro have refused: "fst (save ?p readonly_dir) \<noteq> None"
    by blast
  show ?thesis
    using ok_new file_new absent refused by simp
qed

text \<open>
  The file does not always end up with mode \<^verbatim>\<open>0600\<close>. Where \<^verbatim>\<open>Foo.txt\<close> exists with mode
  \<^verbatim>\<open>0644\<close>, \<open>save\<close> succeeds, the file holds the new body, and its mode is still \<^verbatim>\<open>0644\<close>:
  the group and the others may read it.
\<close>

theorem save_writes_body_counterexample:
  "fst (save \<lparr>Title = ''Foo'', Body = bytes ''hi''\<rparr> shared_Foo) = None \<and>
   files (snd (save \<lparr>Title = ''Foo'', Body = bytes ''hi''\<rparr> shared_Foo)) ''Foo.txt''
     = Some \<lparr>contents = [104, 105], perm = 6 * 8 ^ 2 + 4 * 8 + 4\<rparr> \<and>
   (6 * 8 ^ 2 + 4 * 8 + 4 :: FileMode) \<noteq> 6 * 8 ^ 2 \<and>
   (6 * 8 ^ 2 + 4 * 8 + 4 :: FileMode) AND 0x3F \<noteq> 0"
  by (simp add: store_defs name_Foo shared_Foo_def owner_write_def bytes_def)

text \<open>
  C9. Saving the same page twice in a row leaves the directory, and so the contents of the
  page's file, as one save leaves it; the second save also succeeds or fails as the first
  did.
\<close>

theorem save_twice:
  "snd (save p (snd (save p fs))) = snd (save p fs) \<and>
   files (snd (save p (snd (save p fs)))) (Title p @ ''.txt'')
     = files (snd (save p fs)) (Title p @ ''.txt'') \<and>
   fst (save p (snd (save p fs))) = fst (save p fs)"
proof -
  let ?name = "Title p @ ''.txt''"
  have "save p (snd (save p fs)) = (fst (save p fs), snd (save p fs))"
  proof (cases "name_error ?name")
    case (Some e)
    then show ?thesis
      by (simp add: store_defs)
  next
    case name: None
    show ?thesis
    proof (cases "files fs ?name")
      case None
      show ?thesis
      proof (cases "dir_writable fs")
        case False
        with name None show ?thesis
          by (simp add: store_defs)
      next
        case True
        show ?thesis
        proof (cases "length (Body p) \<le> free_bytes fs")
          case fits: True
          with name None True show ?thesis
            by (simp add: store_defs mode_0600(3))
        next
          case False
          with name None True show ?thesis
            by (simp add: store_defs mode_0600(3) min_def)
        qed
      qed
    next
      case (Some f)
      show ?thesis
      proof (cases "owner_write (perm f)")
        case False
        with name Some show ?thesis
          by (simp add: store_defs)
      next
        case True
        show ?thesis
        proof (cases "length (Body p) \<le> free_bytes fs + length (contents f)")
          case fits: True
          with name Some True show ?thesis
            by (simp add: store_defs)
        next
          case False
          with name Some True show ?thesis
            by (simp add: store_defs min_def)
        qed
      qed
    qed
  qed
  then show ?thesis
    by simp
qed

text \<open>
  C8. Two different titles that the validator accepts name two different files. No
  accepted title holds a slash, a backslash, a dot or a zero byte, so the name of a page's
  file holds no path separator and ends in its only extension, \<^verbatim>\<open>.txt\<close>; and
  saving a page under one accepted title changes nothing of what loading a different
  title returns.
\<close>

theorem filenames_injective:
  assumes "MatchString titleValidator t1" and "MatchString titleValidator t2" and "t1 \<noteq> t2"
  shows "t1 @ ''.txt'' \<noteq> t2 @ ''.txt'' \<and>
         CHR ''/'' \<notin> set (t1 @ ''.txt'') \<and> CHR 0x5C \<notin> set (t1 @ ''.txt'') \<and>
         CHR 0x00 \<notin> set (t1 @ ''.txt'') \<and>
         CHR ''.'' \<notin> set t1 \<and>
         filter (\<lambda>c. c = CHR ''.'') (t1 @ ''.txt'') = ''.'' \<and>
         loadPage t2 (snd (save \<lparr>Title = t1, Body = B\<rparr> fs)) = loadPage t2 fs"
proof -
  let ?alnum = "set ''abcdefghijklmnopqrstuvwxyzABCDEFGHIJKLMNOPQRSTUVWXYZ0123456789''"
  have "CHR ''/'' \<notin> ?alnum" "CHR 0x5C \<notin> ?alnum" "CHR 0x00 \<notin> ?alnum" "CHR ''.'' \<notin> ?alnum"
    by simp_all
  then have no: "CHR ''/'' \<notin> set t1" "CHR 0x5C \<notin> set t1" "CHR 0x00 \<notin> set t1" "CHR ''.'' \<notin> set t1"
    using valid_title_chars [OF assms(1)] by blast+
  have dots: "filter (\<lambda>c. c = CHR ''.'') t1 = []"
    using no(4) by (auto simp: filter_empty_conv)
  have names: "t1 @ ''.txt'' \<noteq> t2 @ ''.txt''"
    using assms(3) by simp
  then have "files (snd (save \<lparr>Title = t1, Body = B\<rparr> fs)) (t2 @ ''.txt'') = files fs (t2 @ ''.txt'')"
    using save_other_files [of "t2 @ ''.txt''" "\<lparr>Title = t1, Body = B\<rparr>" fs] by simp
  then have "loadPage t2 (snd (save \<lparr>Title = t1, Body = B\<rparr> fs)) = loadPage t2 fs"
    by (rule loadPage_same_file)
  then show ?thesis
    using names no dots by simp
qed

theorem filenames_injective_witness:
  "MatchString titleValidator ''Foo'' \<and> MatchString titleValidator ''Bar'' \<and> ''Foo'' \<noteq> ''Bar'' \<and>
   ''Foo'' @ ''.txt'' \<noteq> ''Bar'' @ ''.txt'' \<and>
   loadPage ''Bar'' (snd (save \<lparr>Title = ''Foo'', Body = bytes ''hi''\<rparr> empty_dir))
     = loadPage ''Bar'' empty_dir"
proof -
  have ne: "''Foo'' \<noteq> ''Bar''"
    by simp
  show ?thesis
    using filenames_injective [OF valid_Foo valid_Bar ne, of "bytes ''hi''" empty_dir]
      valid_Foo valid_Bar ne
    by blast
qed

text \<open>
  Other causes of a failed save: a title of 252 letters, which the validator accepts,
  makes a name of 256 bytes; a title with a slash, which only a caller other than the
  router can pass, names a file in a directory that is not there; a body longer than the
  space left is written in part.
\<close>

lemma save_long_title:
  "MatchString titleValidator (replicate 252 (CHR ''a''))"
  "save \<lparr>Title = replicate 252 (CHR ''a''), Body = B\<rparr> fs =
     (Some (PathError ''open'' (replicate 252 (CHR ''a'') @ ''.txt'') ENAMETOOLONG), fs)"
  by (simp_all add: titleValidator_def MatchString_anchored_class store_defs name_error_def
      NAME_MAX_def)

lemma save_slash_title:
  "save \<lparr>Title = ''a/b'', Body = B\<rparr> fs = (Some (PathError ''open'' ''a/b.txt'' ENOENT), fs)"
  by (simp add: store_defs name_error_def)

lemma save_disk_full:
  "save \<lparr>Title = ''Foo'', Body = bytes ''hi''\<rparr> (empty_dir\<lparr>free_bytes := 1\<rparr>) =
     (Some (PathError ''write'' ''Foo.txt'' ENOSPC),
      \<lparr>files = [''Foo.txt'' \<mapsto> \<lparr>contents = [104], perm = 0x180\<rparr>],
       dir_writable = True, free_bytes = 0\<rparr>)"
  by (simp add: store_defs name_Foo empty_dir_def bytes_def)

section \<open>The handlers\<close>

text \<open>
  C4. For an accepted title: when \<open>loadPage\<close> fails, for whatever reason and in particular
  when the title's file does not exist, the view handler's whole reply is a redirect with
  status 302 to \<^verbatim>\<open>/edit/\<close> followed by the same title, and no error reply; when
  \<open>loadPage\<close> succeeds, the handler executes the template \<^verbatim>\<open>view.html\<close> on the loaded page
  (and replies with status 500 only if the template engine fails). The directory is left
  as it was.
\<close>

theorem viewHandler_reply:
  assumes "MatchString titleValidator title"
  shows "(\<forall>err. loadPage title fs = Inl err \<longrightarrow>
            viewHandler tpls r title fs = ([Redirect (''/edit/'' @ title) 302], fs)) \<and>
         (files fs (title @ ''.txt'') = None \<longrightarrow>
            viewHandler tpls r title fs = ([Redirect (''/edit/'' @ title) 302], fs)) \<and>
         (\<forall>p. loadPage title fs = Inr p \<longrightarrow>
            viewHandler tpls r title fs =
              (ExecuteTemplate ''view.html'' p #
                 (case tpls ''view.html'' p of
                    None \<Rightarrow> [] | Some err \<Rightarrow> [HttpError (Error err) 500]), fs))"
  using loadPage_missing [of fs title]
  by (auto simp: viewHandler_def renderTemplate_def StatusFound_def
      StatusInternalServerError_def split: option.splits)

theorem viewHandler_reply_witness:
  "MatchString titleValidator ''Missing'' \<and>
   files empty_dir (''Missing'' @ ''.txt'') = None \<and>
   viewHandler ok_templates (GET ''/view/Missing'') ''Missing'' empty_dir
     = ([Redirect ''/edit/Missing'' 302], empty_dir) \<and>
   loadPage ''Foo'' (snd (save \<lparr>Title = ''Foo'', Body = bytes ''hi''\<rparr> empty_dir))
     = Inr \<lparr>Title = ''Foo'', Body = bytes ''hi''\<rparr> \<and>
   fst (viewHandler ok_templates (GET ''/view/Foo'') ''Foo''
          (snd (save \<lparr>Title = ''Foo'', Body = bytes ''hi''\<rparr> empty_dir)))
     = [ExecuteTemplate ''view.html'' \<lparr>Title = ''Foo'', Body = bytes ''hi''\<rparr>]"
proof -
  have valid: "MatchString titleValidator ''Missing''"
    by code_simp
  have none: "files empty_dir (''Missing'' @ ''.txt'') = None"
    by (simp add: empty_dir_def)
  have redirect: "viewHandler ok_templates (GET ''/view/Missing'') ''Missing'' empty_dir
      = ([Redirect ''/edit/Missing'' 302], empty_dir)"
    using viewHandler_reply [OF valid, of empty_dir ok_templates "GET ''/view/Missing''"] none
    by simp
  have loaded: "loadPage ''Foo'' (snd (save \<lparr>Title = ''Foo'', Body = bytes ''hi''\<rparr> empty_dir))
      = Inr \<lparr>Title = ''Foo'', Body = bytes ''hi''\<rparr>"
    by (simp add: store_defs name_Foo loadPage_def ReadFile_def empty_dir_def bytes_def
        owner_read_def)
  have "fst (viewHandler ok_templates (GET ''/view/Foo'') ''Foo''
          (snd (save \<lparr>Title = ''Foo'', Body = bytes ''hi''\<rparr> empty_dir)))
     = [ExecuteTemplate ''view.html'' \<lparr>Title = ''Foo'', Body = bytes ''hi''\<rparr>]"
    using viewHandler_reply [OF valid_Foo,
        of "snd (save \<lparr>Title = ''Foo'', Body = bytes ''hi''\<rparr> empty_dir)" ok_templates "GET ''/view/Foo''"]
      loaded
    by (simp add: ok_templates_def)
  then show ?thesis
    using valid none redirect loaded by simp
qed

text \<open>
  C5. For an accepted title: when \<open>loadPage\<close> fails, the edit handler passes no error on;
  it executes the template \<^verbatim>\<open>edit.html\<close> on a page with the requested title and an empty
  body. When \<open>loadPage\<close> succeeds, it executes \<^verbatim>\<open>edit.html\<close> on the loaded page. In both
  cases an error reply (status 500) follows only if the template engine fails, and the
  directory is left as it was.
\<close>

theorem editHandler_reply:
  assumes "MatchString titleValidator title"
  shows "(\<forall>err. loadPage title fs = Inl err \<longrightarrow>
            editHandler tpls r title fs =
              (ExecuteTemplate ''edit.html'' \<lparr>Title = title, Body = []\<rparr> #
                 (case tpls ''edit.html'' \<lparr>Title = title, Body = []\<rparr> of
                    None \<Rightarrow> [] | Some e \<Rightarrow> [HttpError (Error e) 500]), fs)) \<and>
         (\<forall>p. loadPage title fs = Inr p \<longrightarrow>
            editHandler tpls r title fs =
              (ExecuteTemplate ''edit.html'' p #
                 (case tpls ''edit.html'' p of
                    None \<Rightarrow> [] | Some e \<Rightarrow> [HttpError (Error e) 500]), fs))"
  by (auto simp: editHandler_def renderTemplate_def StatusInternalServerError_def
      split: option.splits)

theorem editHandler_reply_witness:
  "MatchString titleValidator ''Foo'' \<and>
   loadPage ''Foo'' empty_dir = Inl (PathError ''open'' ''Foo.txt'' ENOENT) \<and>
   editHandler ok_templates (GET ''/edit/Foo'') ''Foo'' empty_dir
     = ([ExecuteTemplate ''edit.html'' \<lparr>Title = ''Foo'', Body = []\<rparr>], empty_dir) \<and>
   loadPage ''Foo'' (snd (save \<lparr>Title = ''Foo'', Body = bytes ''hi''\<rparr> empty_dir))
     = Inr \<lparr>Title = ''Foo'', Body = bytes ''hi''\<rparr> \<and>
   fst (editHandler ok_templates (GET ''/edit/Foo'') ''Foo''
          (snd (save \<lparr>Title = ''Foo'', Body = bytes ''hi''\<rparr> empty_dir)))
     = [ExecuteTemplate ''edit.html'' \<lparr>Title = ''Foo'', Body = bytes ''hi''\<rparr>]"
proof -
  have missing: "loadPage ''Foo'' empty_dir = Inl (PathError ''open'' ''Foo.txt'' ENOENT)"
    by (simp add: loadPage_def ReadFile_def Let_def name_Foo empty_dir_def)
  have blank: "editHandler ok_templates (GET ''/edit/Foo'') ''Foo'' empty_dir
     = ([ExecuteTemplate ''edit.html'' \<lparr>Title = ''Foo'', Body = []\<rparr>], empty_dir)"
    using editHandler_reply [OF valid_Foo, of empty_dir ok_templates "GET ''/edit/Foo''"] missing
    by (simp add: ok_templates_def)
  have loaded: "loadPage ''Foo'' (snd (save \<lparr>Title = ''Foo'', Body = bytes ''hi''\<rparr> empty_dir))
      = Inr \<lparr>Title = ''Foo'', Body = bytes ''hi''\<rparr>"
    by (simp add: store_defs name_Foo loadPage_def ReadFile_def empty_dir_def bytes_def
        owner_read_def)
  have "fst (editHandler ok_templates (GET ''/edit/Foo'') ''Foo''
          (snd (save \<lparr>Title = ''Foo'', Body = bytes ''hi''\<rparr> empty_dir)))
     = [ExecuteTemplate ''edit.html'' \<lparr>Title = ''Foo'', Body = bytes ''hi''\<rparr>]"
    using editHandler_reply [OF valid_Foo,
        of "snd (save \<lparr>Title = ''Foo'', Body = bytes ''hi''\<rparr> empty_dir)" ok_templates "GET ''/edit/Foo''"]
      loaded
    by (simp add: ok_templates_def)
  then show ?thesis
    using valid_Foo missing blank loaded by simp
qed

text \<open>
  C3. For an accepted title, the save handler builds the page from the title and the
  bytes of the form value \<^verbatim>\<open>body\<close> and saves it. If \<open>save\<close> returns an error, the whole
  reply is an error reply with status 500 and the error's description, without a
  redirect. If \<open>save\<close> returns none, the whole reply is a redirect with status 302 to
  \<^verbatim>\<open>/view/\<close> followed by the same title, and the title's file holds the bytes of the form
  value.
\<close>

theorem saveHandler_reply:
  assumes "MatchString titleValidator title"
  shows "(\<forall>err fs'.
            save \<lparr>Title = title, Body = bytes (FormValue r ''body'')\<rparr> fs = (Some err, fs') \<longrightarrow>
            saveHandler r title fs = ([HttpError (Error err) 500], fs')) \<and>
         (\<forall>fs'.
            save \<lparr>Title = title, Body = bytes (FormValue r ''body'')\<rparr> fs = (None, fs') \<longrightarrow>
            saveHandler r title fs = ([Redirect (''/view/'' @ title) 302], fs') \<and>
            (\<exists>f. files fs' (title @ ''.txt'') = Some f \<and>
                 contents f = bytes (FormValue r ''body'')))"
proof -
  have "\<exists>f. files fs' (title @ ''.txt'') = Some f \<and> contents f = bytes (FormValue r ''body'')"
    if "save \<lparr>Title = title, Body = bytes (FormValue r ''body'')\<rparr> fs = (None, fs')" for fs'
    using save_ok_file [OF that] by auto
  then show ?thesis
    by (simp add: saveHandler_def Let_def StatusFound_def StatusInternalServerError_def)
qed

theorem saveHandler_reply_witness:
  "MatchString titleValidator ''Foo'' \<and>
   saveHandler (POST ''/save/Foo'' [(''body'', [''Hello, world!''])]) ''Foo'' readonly_dir
     = ([HttpError ''open Foo.txt: permission denied'' 500], readonly_dir) \<and>
   fst (saveHandler (POST ''/save/Foo'' [(''body'', [''Hello, world!''])]) ''Foo'' empty_dir)
     = [Redirect ''/view/Foo'' 302] \<and>
   map_option contents
     (files (snd (saveHandler (POST ''/save/Foo'' [(''body'', [''Hello, world!''])]) ''Foo''
                    empty_dir)) ''Foo.txt'')
     = Some (bytes ''Hello, world!'')"
proof -
  let ?r = "POST ''/save/Foo'' [(''body'', [''Hello, world!''])]"
  have body: "FormValue ?r ''body'' = ''Hello, world!''"
    by (simp add: FormValue_def POST_def)
  have refused: "save \<lparr>Title = ''Foo'', Body = bytes (FormValue ?r ''body'')\<rparr> readonly_dir
      = (Some (PathError ''open'' ''Foo.txt'' EACCES), readonly_dir)"
    by (simp add: store_defs name_Foo readonly_dir_def)
  have 1: "saveHandler ?r ''Foo'' readonly_dir
      = ([HttpError ''open Foo.txt: permission denied'' 500], readonly_dir)"
    using saveHandler_reply [OF valid_Foo, of ?r readonly_dir] refused by simp
  have "fst (save \<lparr>Title = ''Foo'', Body = bytes (FormValue ?r ''body'')\<rparr> empty_dir) = None"
    by (simp add: store_defs name_Foo empty_dir_def body bytes_def)
  then have written: "save \<lparr>Title = ''Foo'', Body = bytes (FormValue ?r ''body'')\<rparr> empty_dir
      = (None, snd (save \<lparr>Title = ''Foo'', Body = bytes (FormValue ?r ''body'')\<rparr> empty_dir))"
    by (simp add: prod_eq_iff)
  have 2: "saveHandler ?r ''Foo'' empty_dir =
      ([Redirect (''/view/'' @ ''Foo'') 302],
       snd (save \<lparr>Title = ''Foo'', Body = bytes (FormValue ?r ''body'')\<rparr> empty_dir))"
    using saveHandler_reply [OF valid_Foo, of ?r empty_dir] written by blast
  have 3: "files (snd (save \<lparr>Title = ''Foo'', Body = bytes (FormValue ?r ''body'')\<rparr> empty_dir))
      ''Foo.txt'' = Some \<lparr>contents = bytes ''Hello, world!'', perm = 0x180\<rparr>"
    unfolding body by (simp add: store_defs name_Foo empty_dir_def bytes_def)
  show ?thesis
    using valid_Foo 1 2 3 by simp
qed

text \<open>
  C10. For an accepted title, a request to the save handler whose form has no value for
  \<^verbatim>\<open>body\<close>, or whose first value for it is empty, is handled exactly as one whose form has
  the one empty value: the handler saves the page with the empty body. If that save
  returns no error, the reply is the redirect to the view path and the title's file is
  afterwards empty, whatever it held before, created with mode \<^verbatim>\<open>0600\<close> if it was absent.
  If that save returns an error, the reply is the error reply with status 500, as for
  any other body.
\<close>

theorem saveHandler_without_body:
  assumes "MatchString titleValidator title"
    and "Form r ''body'' = None \<or> Form r ''body'' = Some [] \<or>
         (\<exists>vs. Form r ''body'' = Some ([] # vs))"
  shows "saveHandler r title fs = saveHandler (r\<lparr>Form := [''body'' \<mapsto> [[]]]\<rparr>) title fs \<and>
         saveHandler r title fs =
           (case save \<lparr>Title = title, Body = []\<rparr> fs of
              (Some err, fs') \<Rightarrow> ([HttpError (Error err) 500], fs')
            | (None, fs') \<Rightarrow> ([Redirect (''/view/'' @ title) 302], fs')) \<and>
         (fst (save \<lparr>Title = title, Body = []\<rparr> fs) = None \<longrightarrow>
            fst (saveHandler r title fs) = [Redirect (''/view/'' @ title) 302] \<and>
            files (snd (saveHandler r title fs)) (title @ ''.txt'') =
              Some \<lparr>contents = [],
                    perm = (case files fs (title @ ''.txt'') of
                              None \<Rightarrow> 6 * 8 ^ 2 | Some f \<Rightarrow> perm f)\<rparr>) \<and>
         (\<forall>err. fst (save \<lparr>Title = title, Body = []\<rparr> fs) = Some err \<longrightarrow>
            fst (saveHandler r title fs) = [HttpError (Error err) 500])"
proof -
  let ?p = "\<lparr>Title = title, Body = []\<rparr>"
  have empty: "FormValue r ''body'' = []"
    using assms(2) by (auto simp: FormValue_def)
  have empty': "FormValue (r\<lparr>Form := [''body'' \<mapsto> [[]]]\<rparr>) ''body'' = []"
    by (simp add: FormValue_def)
  have same: "saveHandler r title fs = saveHandler (r\<lparr>Form := [''body'' \<mapsto> [[]]]\<rparr>) title fs"
    by (simp add: saveHandler_def empty empty')
  have run: "saveHandler r title fs =
           (case save ?p fs of
              (Some err, fs') \<Rightarrow> ([HttpError (Error err) 500], fs')
            | (None, fs') \<Rightarrow> ([Redirect (''/view/'' @ title) 302], fs'))"
    by (simp add: saveHandler_def empty bytes_def Let_def StatusFound_def
        StatusInternalServerError_def split: prod.splits option.splits)
  have ok: "fst (saveHandler r title fs) = [Redirect (''/view/'' @ title) 302] \<and>
            files (snd (saveHandler r title fs)) (title @ ''.txt'') =
              Some \<lparr>contents = [],
                    perm = (case files fs (title @ ''.txt'') of
                              None \<Rightarrow> 6 * 8 ^ 2 | Some f \<Rightarrow> perm f)\<rparr>"
    if none: "fst (save ?p fs) = None"
  proof -
    have "saveHandler r title fs = ([Redirect (''/view/'' @ title) 302], snd (save ?p fs))"
      unfolding run using none by (cases "save ?p fs") simp
    then show ?thesis
      using save_ok_written [OF none] by (simp split: option.splits)
  qed
  have failed: "fst (saveHandler r title fs) = [HttpError (Error err) 500]"
    if some: "fst (save ?p fs) = Some err" for err
    unfolding run using some by (cases "save ?p fs") simp
  show ?thesis
    using same run ok failed by blast
qed

theorem saveHandler_without_body_witness:
  "MatchString titleValidator ''Foo'' \<and>
   Form (POST ''/save/Foo'' []) ''body'' = None \<and>
   fst (save \<lparr>Title = ''Foo'', Body = []\<rparr> writeonly_Foo) = None \<and>
   fst (saveHandler (POST ''/save/Foo'' []) ''Foo'' writeonly_Foo) = [Redirect ''/view/Foo'' 302] \<and>
   files writeonly_Foo ''Foo.txt'' = Some \<lparr>contents = [111, 108, 100], perm = 128\<rparr> \<and>
   files (snd (saveHandler (POST ''/save/Foo'' []) ''Foo'' writeonly_Foo)) ''Foo.txt''
     = Some \<lparr>contents = [], perm = 128\<rparr>"
proof -
  let ?r = "POST ''/save/Foo'' []"
  have absent: "Form ?r ''body'' = None"
    by (simp add: POST_def)
  then have hyp: "Form ?r ''body'' = None \<or> Form ?r ''body'' = Some [] \<or>
         (\<exists>vs. Form ?r ''body'' = Some ([] # vs))"
    by simp
  have old: "files writeonly_Foo ''Foo.txt'' = Some \<lparr>contents = [111, 108, 100], perm = 128\<rparr>"
    by (simp add: writeonly_Foo_def bytes_def)
  have saved: "fst (save \<lparr>Title = ''Foo'', Body = []\<rparr> writeonly_Foo) = None"
    by (simp add: store_defs name_Foo writeonly_Foo_def owner_write_def)
  have "fst (saveHandler ?r ''Foo'' writeonly_Foo) = [Redirect (''/view/'' @ ''Foo'') 302] \<and>
      files (snd (saveHandler ?r ''Foo'' writeonly_Foo)) (''Foo'' @ ''.txt'') =
        Some \<lparr>contents = [],
              perm = (case files writeonly_Foo (''Foo'' @ ''.txt'') of
                        None \<Rightarrow> 6 * 8 ^ 2 | Some f \<Rightarrow> perm f)\<rparr>"
    using saveHandler_without_body [OF valid_Foo hyp, of writeonly_Foo] saved by blast
  then show ?thesis
    using valid_Foo absent old saved by simp
qed

text \<open>
  Such a request does not always succeed. In a directory that the server may not write
  to, the reply to a post without a body is the error reply with status 500, as it is to
  a post with a body, and no file is made.
\<close>

theorem saveHandler_without_body_counterexample:
  "MatchString titleValidator ''Foo'' \<and>
   Form (POST ''/save/Foo'' []) ''body'' = None \<and>
   saveHandler (POST ''/save/Foo'' []) ''Foo'' readonly_dir
     = ([HttpError ''open Foo.txt: permission denied'' 500], readonly_dir) \<and>
   files readonly_dir ''Foo.txt'' = None"
  using valid_Foo
  by (simp add: saveHandler_def FormValue_def POST_def store_defs name_Foo readonly_dir_def
      StatusInternalServerError_def bytes_def)

section \<open>The router\<close>

text \<open>
  C6. \<open>main\<close> registers three routes, for the patterns \<^verbatim>\<open>/view/\<close>, \<^verbatim>\<open>/edit/\<close> and
  \<^verbatim>\<open>/save/\<close>. For each of them, and a request whose path is the pattern followed by a
  title: the wrapper cuts off the first \<open>lenPath\<close> characters, which leaves the title. If
  the validator rejects the title, the reply is \<open>NotFound\<close> (status 404) and the directory
  is as before, whatever handler is wrapped, so the handler has not run. If the validator
  accepts the title, the result is that of the route's own handler on the request and
  the title.
\<close>

theorem makeHandler_dispatch:
  assumes "(pattern, h) \<in> set (routes tpls)" and "Path r = pattern @ title"
  shows "map fst (routes tpls) = [''/view/'', ''/edit/'', ''/save/''] \<and>
         drop lenPath (Path r) = title \<and>
         (\<not> MatchString titleValidator title \<longrightarrow>
            h r fs = Some ([HttpError ''404 page not found'' 404], fs) \<and>
            (\<forall>fn. makeHandler fn r fs = Some ([HttpError ''404 page not found'' 404], fs))) \<and>
         (MatchString titleValidator title \<longrightarrow>
            h r fs = Some ((if pattern = ''/view/'' then viewHandler tpls
                            else if pattern = ''/edit/'' then editHandler tpls
                            else saveHandler) r title fs))"
proof -
  have len: "length pattern = lenPath"
    using assms(1) by (auto simp: routes_def lenPath_def)
  then have title: "drop lenPath (Path r) = title" and long: "\<not> length (Path r) < lenPath"
    using assms(2) by simp_all
  have wrapped: "makeHandler fn r fs =
      (if MatchString titleValidator title then Some (fn r title fs)
       else Some ([HttpError ''404 page not found'' 404], fs))" for fn
    using title long by (simp add: makeHandler_def Let_def NotFound_def StatusNotFound_def)
  have h: "h = makeHandler (if pattern = ''/view/'' then viewHandler tpls
                            else if pattern = ''/edit/'' then editHandler tpls
                            else saveHandler)"
    using assms(1) by (auto simp: routes_def)
  have "map fst (routes tpls) = [''/view/'', ''/edit/'', ''/save/'']"
    by (simp add: routes_def)
  then show ?thesis
    using title wrapped h by simp
qed

theorem makeHandler_dispatch_witness:
  "(''/edit/'', makeHandler (editHandler ok_templates)) \<in> set (routes ok_templates) \<and>
   Path (GET ''/edit/bad title!'') = ''/edit/'' @ ''bad title!'' \<and>
   \<not> MatchString titleValidator ''bad title!'' \<and>
   makeHandler (editHandler ok_templates) (GET ''/edit/bad title!'') empty_dir
     = Some ([HttpError ''404 page not found'' 404], empty_dir) \<and>
   (''/view/'', makeHandler (viewHandler ok_templates)) \<in> set (routes ok_templates) \<and>
   Path (GET ''/view/Missing'') = ''/view/'' @ ''Missing'' \<and>
   MatchString titleValidator ''Missing'' \<and>
   makeHandler (viewHandler ok_templates) (GET ''/view/Missing'') empty_dir
     = Some (viewHandler ok_templates (GET ''/view/Missing'') ''Missing'' empty_dir)"
proof -
  have edit: "(''/edit/'', makeHandler (editHandler ok_templates)) \<in> set (routes ok_templates)"
    by (simp add: routes_def)
  have view: "(''/view/'', makeHandler (viewHandler ok_templates)) \<in> set (routes ok_templates)"
    by (simp add: routes_def)
  have bad_path: "Path (GET ''/edit/bad title!'') = ''/edit/'' @ ''bad title!''"
    by (simp add: GET_def)
  have good_path: "Path (GET ''/view/Missing'') = ''/view/'' @ ''Missing''"
    by (simp add: GET_def)
  have bad: "\<not> MatchString titleValidator ''bad title!''"
    by code_simp
  have good: "MatchString titleValidator ''Missing''"
    by code_simp
  have 1: "makeHandler (editHandler ok_templates) (GET ''/edit/bad title!'') empty_dir
     = Some ([HttpError ''404 page not found'' 404], empty_dir)"
    using makeHandler_dispatch [OF edit bad_path, of empty_dir] bad by blast
  have 2: "makeHandler (viewHandler ok_templates) (GET ''/view/Missing'') empty_dir
     = Some (viewHandler ok_templates (GET ''/view/Missing'') ''Missing'' empty_dir)"
    using makeHandler_dispatch [OF view good_path, of empty_dir] good by simp
  show ?thesis
    using edit view bad_path good_path bad good 1 2 by blast
qed

text \<open>
  A path shorter than \<open>lenPath\<close> makes the wrapper panic. No such path reaches it through
  the three routes, whose patterns all have the length \<open>lenPath\<close>.
\<close>

lemma makeHandler_short_path:
  "makeHandler fn (GET ''/vie'') fs = None"
  by (simp add: makeHandler_def GET_def lenPath_def)

lemma makeHandler_no_panic:
  assumes "(pattern, h) \<in> set (routes tpls)" and "take (length pattern) (Path r) = pattern"
  shows "h r fs \<noteq> None"
proof -
  have "length pattern = lenPath"
    using assms(1) by (auto simp: routes_def lenPath_def)
  then have "\<not> length (Path r) < lenPath"
    using assms(2) by (metis length_take min.absorb2 not_less nat_le_linear min.absorb1)
  moreover have "\<exists>fn. h = makeHandler fn"
    using assms(1) by (auto simp: routes_def)
  ultimately show ?thesis
    by (auto simp: makeHandler_def Let_def)
qed

text \<open>
  The scenarios of the program's description, run on the model: posting \<^verbatim>\<open>Hello, world!\<close>
  to \<^verbatim>\<open>/save/Foo\<close> and then getting \<^verbatim>\<open>/view/Foo\<close>; getting \<^verbatim>\<open>/view/Missing\<close>; getting
  \<^verbatim>\<open>/edit/bad title!\<close>.
\<close>

lemma scenario_save_then_view:
  "makeHandler saveHandler (POST ''/save/Foo'' [(''body'', [''Hello, world!''])]) empty_dir
     = Some ([Redirect ''/view/Foo'' 302],
         \<lparr>files = [''Foo.txt'' \<mapsto> \<lparr>contents = bytes ''Hello, world!'', perm = 0x180\<rparr>],
          dir_writable = True, free_bytes = 1048563\<rparr>)"
  "map_option fst (makeHandler (viewHandler ok_templates) (GET ''/view/Foo'')
     \<lparr>files = [''Foo.txt'' \<mapsto> \<lparr>contents = bytes ''Hello, world!'', perm = 0x180\<rparr>],
      dir_writable = True, free_bytes = 1048563\<rparr>)
     = Some [ExecuteTemplate ''view.html'' \<lparr>Title = ''Foo'', Body = bytes ''Hello, world!''\<rparr>]"
  using valid_Foo
  by (simp_all add: makeHandler_def lenPath_def POST_def GET_def saveHandler_def FormValue_def
      store_defs name_Foo empty_dir_def StatusFound_def viewHandler_def loadPage_def
      ReadFile_def owner_read_def renderTemplate_def ok_templates_def bytes_def)

end
